theory Spec2Isabelle
  imports Main "HOL-Library.Sublist"
begin

section \<open>Shared data: errors, JSON values, static configuration\<close>

text \<open>
  A thrown JavaScript \<open>Error\<close> carries a message. Every awaited call that can reject is a
  value of \<open>error + 'a\<close>, with \<open>Inl\<close> the rejection.
\<close>

datatype error = Error string

fun message :: "error \<Rightarrow> string" where
  "message (Error m) = m"

datatype json =
    JString string
  | JNumber int
  | JNull
  | JUndefined
  | JArray "json list"
  | JObject "(string \<times> json) list"

text \<open>\<open>constants/networks.ts\<close>: the bridge configuration; the two amounts are decimal strings
  that \<open>getDefaultBridgeLimits\<close> passes through \<open>BigInt\<close>.\<close>

definition BRIDGE_CONFIG_minDeposit :: int where
  "BRIDGE_CONFIG_minDeposit = 1000000000000000"

definition BRIDGE_CONFIG_maxDeposit :: int where
  "BRIDGE_CONFIG_maxDeposit = 100000000000000000000000"

definition BRIDGE_CONFIG_depositConfirmations :: int where
  "BRIDGE_CONFIG_depositConfirmations = 64"

definition BRIDGE_CONFIG_withdrawalDelay :: int where
  "BRIDGE_CONFIG_withdrawalDelay = 604800"

text \<open>\<open>constants/verses.ts\<close>: the chain ids of the entries of the \<open>VERSES\<close> table, in the
  table's order.\<close>

definition VERSES_chainIds :: "int list" where
  "VERSES_chainIds = [19011, 29548, 2400, 7225878, 5555, 16116, 50006, 75512]"

section \<open>Layer utilities (\<open>utils/layerUtils.ts\<close>)\<close>

datatype LayerType = hub | verse

definition getLayerFromChainId :: "int \<Rightarrow> LayerType" where
  "getLayerFromChainId chainId =
     (if chainId = 248 \<or> chainId = 9372 then hub else verse)"

section \<open>Bridge utilities (\<open>utils/bridgeUtils.ts\<close>)\<close>

datatype BridgeDirection = deposit | withdraw

record BridgeLimits =
  minDeposit :: int
  maxDeposit :: int
  minWithdraw :: int
  maxWithdraw :: int
  dailyLimit :: "int option"
  remainingDailyLimit :: "int option"

record ValidationResult =
  isValid :: bool
  error :: "string option"

definition getDefaultBridgeLimits :: BridgeLimits where
  "getDefaultBridgeLimits =
     \<lparr> minDeposit = BRIDGE_CONFIG_minDeposit,
       maxDeposit = BRIDGE_CONFIG_maxDeposit,
       minWithdraw = BRIDGE_CONFIG_minDeposit,
       maxWithdraw = BRIDGE_CONFIG_maxDeposit,
       dailyLimit = None,
       remainingDailyLimit = None \<rparr>"

text \<open>\<open>bigint.toString()\<close>: decimal digits, a leading minus sign for a negative value.\<close>

definition digit_char :: "nat \<Rightarrow> char" where
  "digit_char d = char_of (48 + d)"

fun nat_toString :: "nat \<Rightarrow> string" where
  "nat_toString n =
     (if n < 10 then [digit_char n] else nat_toString (n div 10) @ [digit_char (n mod 10)])"

definition bigint_toString :: "int \<Rightarrow> string" where
  "bigint_toString i =
     (if i < 0 then CHR ''-'' # nat_toString (nat (- i)) else nat_toString (nat i))"

text \<open>
  \<open>validateBridgeAmount(amount, direction, limits = getDefaultBridgeLimits())\<close>. The third
  test, \<open>limits.remainingDailyLimit && amount > limits.remainingDailyLimit\<close>, is skipped when
  the field is absent and also when it is \<open>0n\<close>, which is falsy.
\<close>

definition validateBridgeAmount :: "int \<Rightarrow> BridgeDirection \<Rightarrow> BridgeLimits \<Rightarrow> ValidationResult" where
  "validateBridgeAmount amount direction limits =
     (let min = (if direction = deposit then minDeposit limits else minWithdraw limits);
          max = (if direction = deposit then maxDeposit limits else maxWithdraw limits)
      in if amount < min then
           \<lparr> isValid = False,
             error = Some (''Amount below minimum: '' @ bigint_toString min) \<rparr>
         else if amount > max then
           \<lparr> isValid = False,
             error = Some (''Amount exceeds maximum: '' @ bigint_toString max) \<rparr>
         else
           (case remainingDailyLimit limits of
              Some r \<Rightarrow>
                if r \<noteq> 0 \<and> amount > r then
                  \<lparr> isValid = False,
                    error = Some (''Amount exceeds remaining daily limit: '' @ bigint_toString r) \<rparr>
                else \<lparr> isValid = True, error = None \<rparr>
            | None \<Rightarrow> \<lparr> isValid = True, error = None \<rparr>))"

text \<open>
  Modelled from the spec: \<open>getBridgeDirection\<close> is imported from \<open>utils/bridgeUtils\<close> by
  \<open>test/unit/bridgeUtils.test.ts\<close>, but no body for it is among the sources. The spec gives
  \<open>direction = deposit if source is Hub and destination is Verse; withdraw if reverse;
  otherwise undefined\<close>, with the Hub chain ids 248 and 9372 and the known Verse chain ids.
\<close>

definition isHubChainId :: "int \<Rightarrow> bool" where
  "isHubChainId chainId = (chainId = 248 \<or> chainId = 9372)"

definition isVerseChainId :: "int \<Rightarrow> bool" where
  "isVerseChainId chainId = (chainId \<in> set VERSES_chainIds)"

definition getBridgeDirection :: "int \<Rightarrow> int \<Rightarrow> BridgeDirection option" where
  "getBridgeDirection sourceChainId destChainId =
     (if isHubChainId sourceChainId \<and> isVerseChainId destChainId then Some deposit
      else if isVerseChainId sourceChainId \<and> isHubChainId destChainId then Some withdraw
      else None)"

section \<open>Bridge client (class \<open>BridgeClient\<close>, \<open>transport/apiClient.ts\<close>)\<close>

text \<open>
  A transaction receipt as the provider returns it: the block it was mined in and the
  status flag (\<open>null | number\<close>; 0 is a reverted transaction). A provider answers the two
  calls \<open>getBridgeStatus\<close> makes; either call can reject.
\<close>

record TransactionReceipt =
  receipt_blockNumber :: int
  receipt_status :: "int option"

record Provider =
  getTransactionReceipt :: "string \<Rightarrow> error + TransactionReceipt option"
  getBlockNumber :: "error + int"

record BridgeClient =
  hubProvider :: Provider
  verseProvider :: Provider

datatype BridgeState = pending | completed | failed | challenge

record BridgeStatusResult =
  status :: BridgeState
  confirmations :: int
  requiredConfirmations :: int

text \<open>\<open>direction === 'deposit' ? this.hubProvider : this.verseProvider\<close>\<close>

definition providerOf :: "BridgeClient \<Rightarrow> BridgeDirection \<Rightarrow> Provider" where
  "providerOf client direction =
     (if direction = deposit then hubProvider client else verseProvider client)"

definition getBridgeStatus ::
  "BridgeClient \<Rightarrow> string \<Rightarrow> BridgeDirection \<Rightarrow> error + BridgeStatusResult" where
  "getBridgeStatus client txHash direction =
     (let provider = providerOf client direction
      in case getTransactionReceipt provider txHash of
           Inl e \<Rightarrow> Inl e
         | Inr None \<Rightarrow>
             Inr \<lparr> status = pending, confirmations = 0,
                   requiredConfirmations = BRIDGE_CONFIG_depositConfirmations \<rparr>
         | Inr (Some receipt) \<Rightarrow>
             (case getBlockNumber provider of
                Inl e \<Rightarrow> Inl e
              | Inr currentBlock \<Rightarrow>
                  (let confs = currentBlock - receipt_blockNumber receipt
                   in if receipt_status receipt = Some 0 then
                        Inr \<lparr> status = failed, confirmations = confs,
                              requiredConfirmations = BRIDGE_CONFIG_depositConfirmations \<rparr>
                      else if direction = deposit then
                        (if confs \<ge> BRIDGE_CONFIG_depositConfirmations then
                           Inr \<lparr> status = completed, confirmations = confs,
                                 requiredConfirmations = BRIDGE_CONFIG_depositConfirmations \<rparr>
                         else
                           Inr \<lparr> status = pending, confirmations = confs,
                                 requiredConfirmations = BRIDGE_CONFIG_depositConfirmations \<rparr>)
                      else
                        Inr \<lparr> status = challenge, confirmations = confs,
                              requiredConfirmations = 0 \<rparr>)))"

section \<open>Trigger node (\<open>OasysTrigger.node.ts\<close>)\<close>

text \<open>
  What one poll sees of its surroundings. The host answers \<open>getNodeParameter(name, fallback)\<close>
  and \<open>getCredentials(name)\<close>; the client factories build a Hub or a Verse client from the
  credentials; every client method is one awaited RPC call. Each of these can reject. A block
  carries the three fields the trigger reads.
\<close>

record Block =
  block_timestamp :: int
  block_hash :: "string option"
  block_transactions :: "string list"

record EpochInfo =
  currentEpoch :: int
  blocksRemaining :: int

record HubClient =
  hub_getBlockNumber :: "error + int"
  hub_getBlock :: "int \<Rightarrow> error + Block option"
  hub_getCurrentEpochInfo :: "error + EpochInfo"
  hub_getBalance :: "string \<Rightarrow> error + int"
  hub_getStakingInfo :: "string \<Rightarrow> error + json"
  hub_getContractEvents :: "string \<Rightarrow> json \<Rightarrow> string \<Rightarrow> int \<Rightarrow> int \<Rightarrow> error + json list"

record VerseClient =
  verse_getBlockNumber :: "error + int"
  verse_getBlock :: "int \<Rightarrow> error + Block option"
  verse_getStatus :: "error + json"

record Credentials =
  cred_layer :: string
  cred_privateKey :: string
  cred_verse :: "string option"

record PollEnv =
  getNodeParameter :: "string \<Rightarrow> string option \<Rightarrow> error + string"
  getCredentials :: "string \<Rightarrow> error + Credentials"
  createHubClient :: "string \<Rightarrow> string \<Rightarrow> error + HubClient"
  createVerseClient :: "string \<Rightarrow> string \<Rightarrow> error + VerseClient"
  JSON_parse :: "string \<Rightarrow> error + json"
  formatOas :: "int \<Rightarrow> string"
  now_toISOString :: string

text \<open>The workflow static data of the node: the persisted numbers, by key.
  \<open>(workflowStaticData[stateKey] as number) || 0\<close> reads an absent key as 0.\<close>

type_synonym StaticData = "string \<rightharpoonup> int"

definition lastProcessed :: "StaticData \<Rightarrow> string \<Rightarrow> int" where
  "lastProcessed workflowStaticData stateKey =
     (case workflowStaticData stateKey of None \<Rightarrow> 0 | Some v \<Rightarrow> v)"

definition stateKeyOf :: "string \<Rightarrow> string \<Rightarrow> string" where
  "stateKeyOf category event = ''oasys_trigger_'' @ category @ ''_'' @ event"

definition hashJson :: "string option \<Rightarrow> json" where
  "hashJson h = (case h of None \<Rightarrow> JNull | Some s \<Rightarrow> JString s)"

definition hubBlockRecord :: "int \<Rightarrow> Block \<Rightarrow> json" where
  "hubBlockRecord blockNum block =
     JObject [(''event'', JString ''newBlock''),
              (''layer'', JString ''Hub''),
              (''blockNumber'', JNumber blockNum),
              (''timestamp'', JNumber (block_timestamp block)),
              (''hash'', hashJson (block_hash block)),
              (''transactions'', JNumber (int (length (block_transactions block))))]"

definition verseBlockRecord :: "string \<Rightarrow> int \<Rightarrow> Block \<Rightarrow> json" where
  "verseBlockRecord verseKey blockNum block =
     JObject [(''event'', JString ''newBlock''),
              (''layer'', JString ''Verse''),
              (''verse'', JString verseKey),
              (''blockNumber'', JNumber blockNum),
              (''timestamp'', JNumber (block_timestamp block)),
              (''hash'', hashJson (block_hash block)),
              (''transactions'', JNumber (int (length (block_transactions block))))]"

text \<open>
  \<open>for (let blockNum = ...; blockNum <= currentBlock; blockNum++)\<close>: one \<open>getBlock\<close> per
  number, a record pushed when the block is there. A rejected \<open>getBlock\<close> leaves the loop
  with the records pushed so far.
\<close>

function blockLoop ::
  "(int \<Rightarrow> error + Block option) \<Rightarrow> (int \<Rightarrow> Block \<Rightarrow> json) \<Rightarrow> int \<Rightarrow> int \<Rightarrow> json list
     \<Rightarrow> json list \<times> error option" where
  "blockLoop getBlock mk blockNum currentBlock results =
     (if blockNum \<le> currentBlock then
        (case getBlock blockNum of
           Inl e \<Rightarrow> (results, Some e)
         | Inr None \<Rightarrow> blockLoop getBlock mk (blockNum + 1) currentBlock results
         | Inr (Some block) \<Rightarrow>
             blockLoop getBlock mk (blockNum + 1) currentBlock (results @ [mk blockNum block]))
      else (results, None))"
  by pat_completeness auto
termination
  by (relation "measure (\<lambda>(getBlock, mk, blockNum, currentBlock, results).
                   nat (currentBlock + 1 - blockNum))") auto

declare blockLoop.simps [simp del]

text \<open>
  The body of the \<open>try\<close> block returns the records pushed and either the error that left the
  block or the value of \<open>currentBlock\<close> at its end.
\<close>

type_synonym TryOutcome = "json list \<times> (error + int)"

definition newBlocks ::
  "(int \<Rightarrow> error + Block option) \<Rightarrow> (int \<Rightarrow> Block \<Rightarrow> json) \<Rightarrow> int \<Rightarrow> int \<Rightarrow> json list
     \<Rightarrow> TryOutcome" where
  "newBlocks getBlock mk lastProcessedBlock currentBlock results =
     (case blockLoop getBlock mk (max (lastProcessedBlock + 1) (currentBlock - 5))
             currentBlock results of
        (results', Some e) \<Rightarrow> (results', Inl e)
      | (results', None) \<Rightarrow> (results', Inr currentBlock))"

definition hubLayerOf :: "Credentials \<Rightarrow> string" where
  "hubLayerOf credentials =
     (if cred_layer credentials = ''hubTestnet'' then ''hubTestnet'' else ''hubMainnet'')"

definition pollHub ::
  "PollEnv \<Rightarrow> string \<Rightarrow> string \<Rightarrow> Credentials \<Rightarrow> int \<Rightarrow> json list \<Rightarrow> TryOutcome" where
  "pollHub env category event credentials lastProcessedBlock results =
     (case createHubClient env (hubLayerOf credentials) (cred_privateKey credentials) of
        Inl e \<Rightarrow> (results, Inl e)
      | Inr hubClient \<Rightarrow>
     (case hub_getBlockNumber hubClient of
        Inl e \<Rightarrow> (results, Inl e)
      | Inr currentBlock \<Rightarrow>
          if category = ''hub'' then
            (if event = ''newBlock'' \<and> currentBlock > lastProcessedBlock then
               newBlocks (hub_getBlock hubClient) hubBlockRecord lastProcessedBlock
                 currentBlock results
             else if event = ''epochChanged'' then
               (case hub_getCurrentEpochInfo hubClient of
                  Inl e \<Rightarrow> (results, Inl e)
                | Inr epochInfo \<Rightarrow>
                    (results @
                       [JObject [(''event'', JString ''epochChanged''),
                                 (''layer'', JString ''Hub''),
                                 (''currentEpoch'', JNumber (currentEpoch epochInfo)),
                                 (''blocksRemaining'', JNumber (blocksRemaining epochInfo))]],
                     Inr currentBlock))
             else (results, Inr currentBlock))
          else if category = ''wallet'' then
            (case getNodeParameter env ''watchAddress'' None of
               Inl e \<Rightarrow> (results, Inl e)
             | Inr watchAddress \<Rightarrow>
                 if watchAddress \<noteq> [] then
                   (case hub_getBalance hubClient watchAddress of
                      Inl e \<Rightarrow> (results, Inl e)
                    | Inr balance \<Rightarrow>
                        (results @
                           [JObject [(''event'', JString ''balanceCheck''),
                                     (''layer'', JString ''Hub''),
                                     (''address'', JString watchAddress),
                                     (''balance'', JString (bigint_toString balance)),
                                     (''balanceFormatted'', JString (formatOas env balance)),
                                     (''blockNumber'', JNumber currentBlock)]],
                         Inr currentBlock))
                 else (results, Inr currentBlock))
          else if category = ''staking'' then
            (case getNodeParameter env ''watchAddress'' None of
               Inl e \<Rightarrow> (results, Inl e)
             | Inr watchAddress \<Rightarrow>
                 if watchAddress \<noteq> [] then
                   (case hub_getStakingInfo hubClient watchAddress of
                      Inl e \<Rightarrow> (results, Inl e)
                    | Inr stakingInfo \<Rightarrow>
                        (results @
                           [JObject [(''event'', JString event),
                                     (''layer'', JString ''Hub''),
                                     (''address'', JString watchAddress),
                                     (''stakingInfo'', stakingInfo),
                                     (''blockNumber'', JNumber currentBlock)]],
                         Inr currentBlock))
                 else (results, Inr currentBlock))
          else (results, Inr currentBlock)))"

definition pollVerse ::
  "PollEnv \<Rightarrow> string \<Rightarrow> Credentials \<Rightarrow> int \<Rightarrow> json list \<Rightarrow> TryOutcome" where
  "pollVerse env event credentials lastProcessedBlock results =
     (case getNodeParameter env ''verse'' (Some ''homeVerse'') of
        Inl e \<Rightarrow> (results, Inl e)
      | Inr verseKey \<Rightarrow>
     (case createVerseClient env verseKey (cred_privateKey credentials) of
        Inl e \<Rightarrow> (results, Inl e)
      | Inr verseClient \<Rightarrow>
     (case verse_getBlockNumber verseClient of
        Inl e \<Rightarrow> (results, Inl e)
      | Inr currentBlock \<Rightarrow>
          if event = ''newBlock'' \<and> currentBlock > lastProcessedBlock then
            newBlocks (verse_getBlock verseClient) (verseBlockRecord verseKey)
              lastProcessedBlock currentBlock results
          else if event = ''statusChanged'' then
            (case verse_getStatus verseClient of
               Inl e \<Rightarrow> (results, Inl e)
             | Inr st \<Rightarrow>
                 (results @
                    [JObject [(''event'', JString ''statusCheck''),
                              (''layer'', JString ''Verse''),
                              (''verse'', JString verseKey),
                              (''status'', st)]],
                  Inr currentBlock))
          else (results, Inr currentBlock))))"

text \<open>The bridge category asks no client for anything; \<open>currentBlock\<close> keeps its initial 0.\<close>

definition pollBridge :: "PollEnv \<Rightarrow> string \<Rightarrow> json list \<Rightarrow> TryOutcome" where
  "pollBridge env event results =
     (case getNodeParameter env ''verse'' (Some ''homeVerse'') of
        Inl e \<Rightarrow> (results, Inl e)
      | Inr verseKey \<Rightarrow>
          (results @
             [JObject [(''event'', JString event),
                       (''layer'', JString ''Bridge''),
                       (''verse'', JString verseKey),
                       (''message'', JString ''Bridge event monitoring active''),
                       (''timestamp'', JString (now_toISOString env))]],
           Inr 0))"

text \<open>\<open>(credentials.verse as string) || 'homeVerse'\<close>: an absent or empty value is falsy.\<close>

definition credVerseKey :: "Credentials \<Rightarrow> string" where
  "credVerseKey credentials =
     (case cred_verse credentials of
        None \<Rightarrow> ''homeVerse''
      | Some v \<Rightarrow> if v = [] then ''homeVerse'' else v)"

definition pollNft :: "PollEnv \<Rightarrow> string \<Rightarrow> Credentials \<Rightarrow> json list \<Rightarrow> TryOutcome" where
  "pollNft env event credentials results =
     (case getNodeParameter env ''layer'' (Some ''hub'') of
        Inl e \<Rightarrow> (results, Inl e)
      | Inr layer \<Rightarrow>
     (case getNodeParameter env ''contractAddress'' (Some '''') of
        Inl e \<Rightarrow> (results, Inl e)
      | Inr contractAddress \<Rightarrow>
     (case (if layer = ''hub'' then
              (case createHubClient env (hubLayerOf credentials) (cred_privateKey credentials) of
                 Inl e \<Rightarrow> Inl e
               | Inr hubClient \<Rightarrow> hub_getBlockNumber hubClient)
            else
              (case createVerseClient env (credVerseKey credentials)
                      (cred_privateKey credentials) of
                 Inl e \<Rightarrow> Inl e
               | Inr verseClient \<Rightarrow> verse_getBlockNumber verseClient)) of
        Inl e \<Rightarrow> (results, Inl e)
      | Inr currentBlock \<Rightarrow>
          (results @
             [JObject [(''event'', JString event),
                       (''layer'', JString layer),
                       (''contractAddress'', JString contractAddress),
                       (''blockNumber'', JNumber currentBlock),
                       (''message'', JString (''NFT '' @ event @ '' monitoring active''))]],
           Inr currentBlock))))"

text \<open>The inner \<open>try\<close> of the contract category: a rejected ABI read, parse or event query is
  dropped and no record is pushed.\<close>

definition contractEvents ::
  "PollEnv \<Rightarrow> HubClient \<Rightarrow> string \<Rightarrow> string \<Rightarrow> int \<Rightarrow> int \<Rightarrow> json list" where
  "contractEvents env hubClient contractAddress eventName lastProcessedBlock currentBlock =
     (case getNodeParameter env ''abi'' (Some ''[]'') of
        Inl e \<Rightarrow> []
      | Inr abiText \<Rightarrow>
     (case JSON_parse env abiText of
        Inl e \<Rightarrow> []
      | Inr abi \<Rightarrow>
     (case hub_getContractEvents hubClient contractAddress abi eventName
             (lastProcessedBlock + 1) currentBlock of
        Inl e \<Rightarrow> []
      | Inr events \<Rightarrow>
          map (\<lambda>evt. JObject [(''event'', JString ''contractEvent''),
                              (''layer'', JString ''Hub''),
                              (''contractAddress'', JString contractAddress),
                              (''eventName'', JString eventName),
                              (''data'', evt)]) events)))"

definition pollContract :: "PollEnv \<Rightarrow> Credentials \<Rightarrow> int \<Rightarrow> json list \<Rightarrow> TryOutcome" where
  "pollContract env credentials lastProcessedBlock results =
     (case getNodeParameter env ''layer'' (Some ''hub'') of
        Inl e \<Rightarrow> (results, Inl e)
      | Inr layer \<Rightarrow>
     (case getNodeParameter env ''contractAddress'' (Some '''') of
        Inl e \<Rightarrow> (results, Inl e)
      | Inr contractAddress \<Rightarrow>
     (case getNodeParameter env ''eventName'' (Some '''') of
        Inl e \<Rightarrow> (results, Inl e)
      | Inr eventName \<Rightarrow>
          if layer = ''hub'' then
            (case createHubClient env (hubLayerOf credentials) (cred_privateKey credentials) of
               Inl e \<Rightarrow> (results, Inl e)
             | Inr hubClient \<Rightarrow>
            (case hub_getBlockNumber hubClient of
               Inl e \<Rightarrow> (results, Inl e)
             | Inr currentBlock \<Rightarrow>
                 if contractAddress \<noteq> [] \<and> eventName \<noteq> [] \<and> currentBlock > lastProcessedBlock
                 then (results @ contractEvents env hubClient contractAddress eventName
                                   lastProcessedBlock currentBlock,
                       Inr currentBlock)
                 else (results, Inr currentBlock)))
          else (results, Inr 0))))"

text \<open>
  The two guards of the \<open>if\<close> chain read the \<open>layer\<close> parameter only when the category is
  \<open>wallet\<close> (\<open>&&\<close> and \<open>||\<close> short-circuit), the first with fallback \<open>hub\<close>, the second with
  fallback \<open>verse\<close>.
\<close>

definition hubGuard :: "PollEnv \<Rightarrow> string \<Rightarrow> error + bool" where
  "hubGuard env category =
     (if category = ''hub'' then Inr True
      else if category = ''wallet'' then
        (case getNodeParameter env ''layer'' (Some ''hub'') of
           Inl e \<Rightarrow> Inl e
         | Inr layer \<Rightarrow> Inr (layer = ''hub'' \<or> category = ''staking''))
      else Inr (category = ''staking''))"

definition verseGuard :: "PollEnv \<Rightarrow> string \<Rightarrow> error + bool" where
  "verseGuard env category =
     (if category = ''verse'' then Inr True
      else if category = ''wallet'' then
        (case getNodeParameter env ''layer'' (Some ''verse'') of
           Inl e \<Rightarrow> Inl e
         | Inr layer \<Rightarrow> Inr (layer = ''verse''))
      else Inr False)"

definition pollTry ::
  "PollEnv \<Rightarrow> string \<Rightarrow> string \<Rightarrow> Credentials \<Rightarrow> int \<Rightarrow> TryOutcome" where
  "pollTry env category event credentials lastProcessedBlock =
     (let results = [] in
      case hubGuard env category of
        Inl e \<Rightarrow> (results, Inl e)
      | Inr True \<Rightarrow> pollHub env category event credentials lastProcessedBlock results
      | Inr False \<Rightarrow>
     (case verseGuard env category of
        Inl e \<Rightarrow> (results, Inl e)
      | Inr True \<Rightarrow> pollVerse env event credentials lastProcessedBlock results
      | Inr False \<Rightarrow>
          if category = ''bridge'' then pollBridge env event results
          else if category = ''nft'' then pollNft env event credentials results
          else if category = ''contract'' then
            pollContract env credentials lastProcessedBlock results
          else (results, Inr 0)))"

text \<open>
  One poll. The result has the static data after the poll, the errors written to the
  console, and what the host receives: a rejection, \<open>null\<close> (\<open>None\<close>) or the one output with
  the records. The category, the event and the credentials are read before the \<open>try\<close>
  block, so a rejection there is the poll's own rejection.
\<close>

text \<open>\<open>if (results.length === 0) return null; return [results];\<close>\<close>

definition emitted :: "json list \<Rightarrow> json list list option" where
  "emitted results = (if results = [] then None else Some [results])"

record PollResult =
  staticData :: StaticData
  logged :: "error list"
  returned :: "error + json list list option"

definition poll :: "PollEnv \<Rightarrow> StaticData \<Rightarrow> PollResult" where
  "poll env workflowStaticData =
     (case getNodeParameter env ''category'' None of
        Inl e \<Rightarrow> \<lparr> staticData = workflowStaticData, logged = [], returned = Inl e \<rparr>
      | Inr category \<Rightarrow>
     (case getNodeParameter env ''event'' None of
        Inl e \<Rightarrow> \<lparr> staticData = workflowStaticData, logged = [], returned = Inl e \<rparr>
      | Inr event \<Rightarrow>
     (case getCredentials env ''oasysNetwork'' of
        Inl e \<Rightarrow> \<lparr> staticData = workflowStaticData, logged = [], returned = Inl e \<rparr>
      | Inr credentials \<Rightarrow>
          (let stateKey = stateKeyOf category event;
               lastProcessedBlock = lastProcessed workflowStaticData stateKey;
               (results, outcome) = pollTry env category event credentials lastProcessedBlock
           in \<lparr> staticData =
                  (case outcome of
                     Inl e \<Rightarrow> workflowStaticData
                   | Inr currentBlock \<Rightarrow>
                       if currentBlock > lastProcessedBlock
                       then workflowStaticData(stateKey \<mapsto> currentBlock)
                       else workflowStaticData),
                logged = (case outcome of Inl e \<Rightarrow> [e] | Inr currentBlock \<Rightarrow> []),
                returned = Inr (emitted results) \<rparr>))))"

text \<open>Successive polls of one trigger, each with the surroundings it finds.\<close>

fun polls :: "PollEnv list \<Rightarrow> StaticData \<Rightarrow> StaticData" where
  "polls [] workflowStaticData = workflowStaticData"
| "polls (env # envs) workflowStaticData =
     polls envs (staticData (poll env workflowStaticData))"

section \<open>Action node (\<open>Oasys.node.ts\<close>): the item loop\<close>

text \<open>
  \<open>for (let i = 0; i < items.length; i++) { try { ...; returnData.push({ json: result }) }
  catch (error) { if (this.continueOnFail()) returnData.push({ json: { error: error.message } })
  else throw error } }\<close>.
  The statements of the \<open>try\<close> block that compute \<open>result\<close> for item \<open>i\<close> read the item's
  parameters and call the clients, which can act on the chain; they are the function
  \<open>evaluate\<close>, from the item's index and the world before to the world after and either
  the error thrown or the result. The loop is the code's own.
\<close>

type_synonym 'w ItemBody = "nat \<Rightarrow> 'w \<Rightarrow> 'w \<times> (error + json)"

definition resultRecord :: "json \<Rightarrow> json" where
  "resultRecord result = JObject [(''json'', result)]"

definition errorRecord :: "error \<Rightarrow> json" where
  "errorRecord e = JObject [(''json'', JObject [(''error'', JString (message e))])]"

function executeLoop ::
  "'w ItemBody \<Rightarrow> bool \<Rightarrow> nat \<Rightarrow> nat \<Rightarrow> 'w \<Rightarrow> json list \<Rightarrow> 'w \<times> (error + json list)" where
  "executeLoop evaluate continueOnFail i itemsLength world returnData =
     (if i < itemsLength then
        (case evaluate i world of
           (world', Inr result) \<Rightarrow>
             executeLoop evaluate continueOnFail (i + 1) itemsLength world'
               (returnData @ [resultRecord result])
         | (world', Inl e) \<Rightarrow>
             if continueOnFail then
               executeLoop evaluate continueOnFail (i + 1) itemsLength world'
                 (returnData @ [errorRecord e])
             else (world', Inl e))
      else (world, Inr returnData))"
  by pat_completeness auto
termination
  by (relation "measure (\<lambda>(evaluate, continueOnFail, i, itemsLength, world, returnData).
                   itemsLength - i)") auto

declare executeLoop.simps [simp del]

text \<open>\<open>return [returnData]\<close> after the loop.\<close>

definition executeItems ::
  "'w ItemBody \<Rightarrow> bool \<Rightarrow> nat \<Rightarrow> 'w \<Rightarrow> 'w \<times> (error + json list list)" where
  "executeItems evaluate continueOnFail itemsLength world =
     (case executeLoop evaluate continueOnFail 0 itemsLength world [] of
        (world', Inl e) \<Rightarrow> (world', Inl e)
      | (world', Inr returnData) \<Rightarrow> (world', Inr [returnData]))"

section \<open>Notions used to state the properties\<close>

text \<open>The block numbers one \<open>newBlock\<close> poll asks for, and the records of those among them
  that the chain has a block for.\<close>

definition replayWindow :: "int \<Rightarrow> int \<Rightarrow> int list" where
  "replayWindow lastProcessedBlock currentBlock =
     [max (lastProcessedBlock + 1) (currentBlock - 5) .. currentBlock]"

definition blockRecords ::
  "(int \<Rightarrow> Block \<Rightarrow> json) \<Rightarrow> (int \<Rightarrow> Block option) \<Rightarrow> int list \<Rightarrow> json list" where
  "blockRecords mk blockAt ns =
     concat (map (\<lambda>n. case blockAt n of None \<Rightarrow> [] | Some block \<Rightarrow> [mk n block]) ns)"

text \<open>The height a Hub client, or the Verse client of a given key, built from the
  credentials reports.\<close>

definition hubHeight :: "PollEnv \<Rightarrow> Credentials \<Rightarrow> error + int" where
  "hubHeight env credentials =
     (case createHubClient env (hubLayerOf credentials) (cred_privateKey credentials) of
        Inl e \<Rightarrow> Inl e
      | Inr hubClient \<Rightarrow> hub_getBlockNumber hubClient)"

definition verseHeight :: "PollEnv \<Rightarrow> Credentials \<Rightarrow> string \<Rightarrow> error + int" where
  "verseHeight env credentials verseKey =
     (case createVerseClient env verseKey (cred_privateKey credentials) of
        Inl e \<Rightarrow> Inl e
      | Inr verseClient \<Rightarrow> verse_getBlockNumber verseClient)"

text \<open>Evaluating \<open>k\<close> items from item \<open>i\<close> on, one after the other, whatever each of them
  yields: the world at the end and the outcome of every item. The record an outcome stands
  for in the output.\<close>

primrec evaluateFrom :: "'w ItemBody \<Rightarrow> nat \<Rightarrow> nat \<Rightarrow> 'w \<Rightarrow> 'w \<times> (error + json) list" where
  "evaluateFrom evaluate i 0 world = (world, [])"
| "evaluateFrom evaluate i (Suc k) world =
     (case evaluate i world of
        (world', out) \<Rightarrow>
          (case evaluateFrom evaluate (i + 1) k world' of
             (world'', outs) \<Rightarrow> (world'', out # outs)))"

definition itemRecord :: "error + json \<Rightarrow> json" where
  "itemRecord out = (case out of Inl e \<Rightarrow> errorRecord e | Inr result \<Rightarrow> resultRecord result)"

section \<open>Example inputs\<close>

text \<open>A Hub provider at height 100 and a Verse provider at height 5000 that know two
  transactions: \<open>0xaa\<close>, mined in block 30 and successful, and \<open>0xbb\<close>, mined in block 90
  and reverted.\<close>

definition exampleProvider :: "int \<Rightarrow> Provider" where
  "exampleProvider height =
     \<lparr> getTransactionReceipt = (\<lambda>h.
          if h = ''0xaa'' then Inr (Some \<lparr> receipt_blockNumber = 30, receipt_status = Some 1 \<rparr>)
          else if h = ''0xbb'' then Inr (Some \<lparr> receipt_blockNumber = 90, receipt_status = Some 0 \<rparr>)
          else Inr None),
       getBlockNumber = Inr height \<rparr>"

definition exampleClient :: BridgeClient where
  "exampleClient = \<lparr> hubProvider = exampleProvider 100, verseProvider = exampleProvider 5000 \<rparr>"

text \<open>A chain whose block \<open>n\<close> exists up to the current height, a Hub and a Verse client on
  it, and the surroundings of a poll with a given category and event; a Hub client whose
  height query is rejected, one whose second block query is rejected, and surroundings
  without credentials.\<close>

definition exampleBlock :: "int \<Rightarrow> Block" where
  "exampleBlock n =
     \<lparr> block_timestamp = 1700000000 + 15 * n, block_hash = Some ''0xb10c'',
       block_transactions = [] \<rparr>"

definition exampleHub :: "int \<Rightarrow> HubClient" where
  "exampleHub height =
     \<lparr> hub_getBlockNumber = Inr height,
       hub_getBlock = (\<lambda>n. Inr (if 0 \<le> n \<and> n \<le> height then Some (exampleBlock n) else None)),
       hub_getCurrentEpochInfo = Inr \<lparr> currentEpoch = 3, blocksRemaining = 100 \<rparr>,
       hub_getBalance = (\<lambda>address. Inr 0),
       hub_getStakingInfo = (\<lambda>address. Inr JNull),
       hub_getContractEvents = (\<lambda>contractAddress abi eventName fromBlock toBlock. Inr []) \<rparr>"

definition exampleVerse :: "int \<Rightarrow> VerseClient" where
  "exampleVerse height =
     \<lparr> verse_getBlockNumber = Inr height,
       verse_getBlock = (\<lambda>n. Inr (if 0 \<le> n \<and> n \<le> height then Some (exampleBlock n) else None)),
       verse_getStatus = Inr JNull \<rparr>"

definition exampleCredentials :: Credentials where
  "exampleCredentials =
     \<lparr> cred_layer = ''hubMainnet'', cred_privateKey = ''0xkey'', cred_verse = None \<rparr>"

definition exampleEnv :: "string \<Rightarrow> string \<Rightarrow> HubClient \<Rightarrow> PollEnv" where
  "exampleEnv category event hubClient =
     \<lparr> getNodeParameter = (\<lambda>name fallback.
          if name = ''category'' then Inr category
          else if name = ''event'' then Inr event
          else (case fallback of Some v \<Rightarrow> Inr v | None \<Rightarrow> Inr '''')),
       getCredentials = (\<lambda>name. Inr exampleCredentials),
       createHubClient = (\<lambda>layer privateKey. Inr hubClient),
       createVerseClient = (\<lambda>verseKey privateKey. Inr (exampleVerse 7)),
       JSON_parse = (\<lambda>text. Inr (JArray [])),
       formatOas = bigint_toString,
       now_toISOString = ''2026-01-01T00:00:00.000Z'' \<rparr>"

definition unreachableHub :: HubClient where
  "unreachableHub = (exampleHub 10) \<lparr> hub_getBlockNumber := Inl (Error ''network error'') \<rparr>"


definition noCredentialsEnv :: PollEnv where
  "noCredentialsEnv =
     (exampleEnv ''hub'' ''newBlock'' (exampleHub 10))
       \<lparr> getCredentials := (\<lambda>name. Inl (Error ''Credentials not found'')) \<rparr>"



text \<open>Items whose evaluation counts the calls made; the item of index 1 throws.\<close>

definition exampleItem :: "nat ItemBody" where
  "exampleItem i calls =
     (calls + 1,
      if i = 1 then Inl (Error ''Wallet not configured'') else Inr (JNumber (int i)))"

section \<open>Bridge status\<close>

text \<open>
  C1. The status \<open>getBridgeStatus\<close> returns is decided by the receipt's presence, the
  confirmation count (current block minus the receipt's block) and the receipt's status
  flag alone: without a receipt it is \<open>pending\<close> with 0 confirmations; with status flag 0 it
  is \<open>failed\<close>; for a deposit whose receipt is not failed it is \<open>completed\<close> exactly when
  the count is at least 64 and \<open>pending\<close> otherwise; for a withdrawal whose receipt is not
  failed it is always \<open>challenge\<close>.
\<close>

theorem getBridgeStatus_cases:
  "(getTransactionReceipt (providerOf client direction) txHash = Inr None \<longrightarrow>
      getBridgeStatus client txHash direction =
        Inr \<lparr> status = pending, confirmations = 0, requiredConfirmations = 64 \<rparr>) \<and>
   (getTransactionReceipt (providerOf client direction) txHash = Inr (Some receipt) \<and>
    getBlockNumber (providerOf client direction) = Inr currentBlock \<longrightarrow>
      (\<exists>res. getBridgeStatus client txHash direction = Inr res \<and>
         confirmations res = currentBlock - receipt_blockNumber receipt \<and>
         (receipt_status receipt = Some 0 \<longrightarrow> status res = failed) \<and>
         (receipt_status receipt \<noteq> Some 0 \<and> direction = deposit \<longrightarrow>
            (status res = completed) = (currentBlock - receipt_blockNumber receipt \<ge> 64) \<and>
            (status res = pending) = (currentBlock - receipt_blockNumber receipt < 64)) \<and>
         (receipt_status receipt \<noteq> Some 0 \<and> direction = withdraw \<longrightarrow>
            status res = challenge)))"
  by (cases direction)
     (auto simp: getBridgeStatus_def providerOf_def Let_def BRIDGE_CONFIG_depositConfirmations_def)

theorem getBridgeStatus_cases_witness:
  "status (projr (getBridgeStatus exampleClient ''0xaa'' deposit)) = completed \<and>
   status (projr (getBridgeStatus exampleClient ''0xaa'' withdraw)) = challenge \<and>
   status (projr (getBridgeStatus exampleClient ''0xbb'' deposit)) = failed \<and>
   getBridgeStatus exampleClient ''0xcc'' deposit =
     Inr \<lparr> status = pending, confirmations = 0, requiredConfirmations = 64 \<rparr>"
  using getBridgeStatus_cases [of exampleClient deposit "''0xaa''"
          "\<lparr> receipt_blockNumber = 30, receipt_status = Some 1 \<rparr>" 100]
        getBridgeStatus_cases [of exampleClient withdraw "''0xaa''"
          "\<lparr> receipt_blockNumber = 30, receipt_status = Some 1 \<rparr>" 5000]
        getBridgeStatus_cases [of exampleClient deposit "''0xbb''"
          "\<lparr> receipt_blockNumber = 90, receipt_status = Some 0 \<rparr>" 100]
        getBridgeStatus_cases [of exampleClient deposit "''0xcc''"]
  by (auto simp: exampleClient_def exampleProvider_def providerOf_def)

section \<open>Bridge amount validation\<close>

lemma sublist_minimum: "sublist ''minimum'' (''Amount below minimum: '' @ s)"
proof -
  have "''Amount below minimum: '' @ s = ''Amount below '' @ ''minimum'' @ ('': '' @ s)"
    by simp
  then show ?thesis unfolding sublist_def by blast
qed

lemma sublist_maximum: "sublist ''maximum'' (''Amount exceeds maximum: '' @ s)"
proof -
  have "''Amount exceeds maximum: '' @ s = ''Amount exceeds '' @ ''maximum'' @ ('': '' @ s)"
    by simp
  then show ?thesis unfolding sublist_def by blast
qed

text \<open>
  C3. With the configured limits, \<open>validateBridgeAmount\<close> rejects every amount below the
  minimum with an error that contains \<open>minimum\<close> and every amount above the maximum with an
  error that contains \<open>maximum\<close>; zero and negative amounts are rejected, the minimum being
  positive; every amount within the range is accepted, no daily limit being set.
\<close>

theorem validateBridgeAmount_range:
  "(amount < BRIDGE_CONFIG_minDeposit \<longrightarrow>
      \<not> isValid (validateBridgeAmount amount direction getDefaultBridgeLimits) \<and>
      (\<exists>msg. error (validateBridgeAmount amount direction getDefaultBridgeLimits) = Some msg \<and>
             sublist ''minimum'' msg)) \<and>
   (amount > BRIDGE_CONFIG_maxDeposit \<longrightarrow>
      \<not> isValid (validateBridgeAmount amount direction getDefaultBridgeLimits) \<and>
      (\<exists>msg. error (validateBridgeAmount amount direction getDefaultBridgeLimits) = Some msg \<and>
             sublist ''maximum'' msg)) \<and>
   (amount \<le> 0 \<longrightarrow> \<not> isValid (validateBridgeAmount amount direction getDefaultBridgeLimits)) \<and>
   (BRIDGE_CONFIG_minDeposit \<le> amount \<and> amount \<le> BRIDGE_CONFIG_maxDeposit \<longrightarrow>
      validateBridgeAmount amount direction getDefaultBridgeLimits =
        \<lparr> isValid = True, error = None \<rparr>)"
  using sublist_minimum sublist_maximum
  by (auto simp: validateBridgeAmount_def getDefaultBridgeLimits_def Let_def
       BRIDGE_CONFIG_minDeposit_def BRIDGE_CONFIG_maxDeposit_def)

theorem validateBridgeAmount_range_witness:
  "\<not> isValid (validateBridgeAmount 0 deposit getDefaultBridgeLimits) \<and>
   \<not> isValid (validateBridgeAmount (- 10) withdraw getDefaultBridgeLimits) \<and>
   \<not> isValid (validateBridgeAmount 100000000000000 deposit getDefaultBridgeLimits) \<and>
   \<not> isValid (validateBridgeAmount 200000000000000000000000 withdraw getDefaultBridgeLimits) \<and>
   isValid (validateBridgeAmount 100000000000000000000 deposit getDefaultBridgeLimits)"
  using validateBridgeAmount_range [of 0 deposit]
        validateBridgeAmount_range [of "- 10" withdraw]
        validateBridgeAmount_range [of 100000000000000 deposit]
        validateBridgeAmount_range [of 200000000000000000000000 withdraw]
        validateBridgeAmount_range [of 100000000000000000000 deposit]
  by (simp add: BRIDGE_CONFIG_minDeposit_def BRIDGE_CONFIG_maxDeposit_def)

section \<open>Layer classification\<close>

text \<open>
  C4, as the code has it. \<open>getLayerFromChainId\<close> classifies 248 and 9372 as Hub and every
  other chain id as Verse, the ids of the \<open>VERSES\<close> table and all others alike: its result
  type has the two values \<open>hub\<close> and \<open>verse\<close> and no third one.
\<close>

theorem getLayerFromChainId_two_valued:
  "getLayerFromChainId 248 = hub \<and> getLayerFromChainId 9372 = hub \<and>
   getLayerFromChainId 19011 = verse \<and> getLayerFromChainId 29548 = verse \<and>
   (getLayerFromChainId chainId = hub) = (chainId = 248 \<or> chainId = 9372) \<and>
   (getLayerFromChainId chainId = verse) = (chainId \<noteq> 248 \<and> chainId \<noteq> 9372)"
  by (simp add: getLayerFromChainId_def)

theorem getLayerFromChainId_two_valued_witness:
  "(getLayerFromChainId 999999 = verse) = ((999999::int) \<noteq> 248 \<and> (999999::int) \<noteq> 9372)"
  using getLayerFromChainId_two_valued [of 999999] by simp

text \<open>Chain id 1 is neither a Hub id nor in the \<open>VERSES\<close> table, and it is classified as
  Verse.\<close>

theorem getLayerFromChainId_unknown_counterexample:
  "1 \<notin> set VERSES_chainIds \<and> (1::int) \<noteq> 248 \<and> (1::int) \<noteq> 9372 \<and>
   getLayerFromChainId 1 = verse"
  by (simp add: getLayerFromChainId_def VERSES_chainIds_def)

section \<open>Bridge direction\<close>

text \<open>
  C5. \<open>getBridgeDirection\<close> yields \<open>deposit\<close> from a Hub chain id to a Verse chain id,
  \<open>withdraw\<close> from a Verse chain id to a Hub chain id, and no direction when both ids are
  Hub ids, both are Verse ids, or the two are the same.
\<close>

theorem getBridgeDirection_spec:
  "(isHubChainId s \<and> isVerseChainId d \<longrightarrow> getBridgeDirection s d = Some deposit) \<and>
   (isVerseChainId s \<and> isHubChainId d \<longrightarrow> getBridgeDirection s d = Some withdraw) \<and>
   (isHubChainId s \<and> isHubChainId d \<longrightarrow> getBridgeDirection s d = None) \<and>
   (isVerseChainId s \<and> isVerseChainId d \<longrightarrow> getBridgeDirection s d = None) \<and>
   (s = d \<longrightarrow> getBridgeDirection s d = None)"
  by (auto simp: getBridgeDirection_def isHubChainId_def isVerseChainId_def VERSES_chainIds_def)

theorem getBridgeDirection_spec_witness:
  "getBridgeDirection 248 19011 = Some deposit \<and>
   getBridgeDirection 19011 248 = Some withdraw \<and>
   getBridgeDirection 248 248 = None \<and>
   getBridgeDirection 19011 29548 = None"
  using getBridgeDirection_spec [of 248 19011] getBridgeDirection_spec [of 19011 248]
        getBridgeDirection_spec [of 248 248] getBridgeDirection_spec [of 19011 29548]
  by (simp add: isHubChainId_def isVerseChainId_def VERSES_chainIds_def)

section \<open>Trigger node: one poll\<close>

lemma poll_after_reads:
  assumes "getNodeParameter env ''category'' None = Inr category"
    and "getNodeParameter env ''event'' None = Inr event"
    and "getCredentials env ''oasysNetwork'' = Inr credentials"
    and "pollTry env category event credentials
           (lastProcessed workflowStaticData (stateKeyOf category event)) = (results, outcome)"
  shows "poll env workflowStaticData =
           \<lparr> staticData =
               (case outcome of
                  Inl e \<Rightarrow> workflowStaticData
                | Inr currentBlock \<Rightarrow>
                    if currentBlock > lastProcessed workflowStaticData (stateKeyOf category event)
                    then workflowStaticData(stateKeyOf category event \<mapsto> currentBlock)
                    else workflowStaticData),
             logged = (case outcome of Inl e \<Rightarrow> [e] | Inr currentBlock \<Rightarrow> []),
             returned = Inr (emitted results) \<rparr>"
  using assms by (simp add: poll_def Let_def)

section \<open>The replay window of \<open>newBlock\<close>\<close>

lemma blockLoop_all_answered:
  "(\<And>n. blockNum \<le> n \<Longrightarrow> n \<le> currentBlock \<Longrightarrow> getBlock n = Inr (blockAt n)) \<Longrightarrow>
   blockLoop getBlock mk blockNum currentBlock results =
     (results @ blockRecords mk blockAt [blockNum .. currentBlock], None)"
proof (induction getBlock mk blockNum currentBlock results rule: blockLoop.induct)
  case (1 getBlock mk blockNum currentBlock results)
  show ?case
  proof (cases "blockNum \<le> currentBlock")
    case False
    then show ?thesis by (subst blockLoop.simps) (simp add: blockRecords_def)
  next
    case True
    have here: "getBlock blockNum = Inr (blockAt blockNum)"
      using True "1.prems" by simp
    have rest: "\<And>n. blockNum + 1 \<le> n \<Longrightarrow> n \<le> currentBlock \<Longrightarrow> getBlock n = Inr (blockAt n)"
      using "1.prems" by simp
    have unfold: "[blockNum .. currentBlock] = blockNum # [blockNum + 1 .. currentBlock]"
      using True by (simp add: upto_rec1)
    show ?thesis
    proof (cases "blockAt blockNum")
      case None
      then show ?thesis
        using True here "1.IH"(1) rest
        by (subst blockLoop.simps) (simp add: unfold blockRecords_def)
    next
      case (Some block)
      then show ?thesis
        using True here "1.IH"(2) rest
        by (subst blockLoop.simps) (simp add: unfold blockRecords_def)
    qed
  qed
qed

lemma length_blockRecords: "length (blockRecords mk blockAt ns) \<le> length ns"
  unfolding blockRecords_def
  by (induction ns) (auto split: option.splits)

lemma length_replayWindow: "length (replayWindow lastProcessedBlock currentBlock) \<le> 6"
  by (simp add: replayWindow_def)

lemma newBlocks_all_answered:
  assumes "\<forall>n \<in> set (replayWindow lastProcessedBlock currentBlock). getBlock n = Inr (blockAt n)"
  shows "newBlocks getBlock mk lastProcessedBlock currentBlock results =
           (results @ blockRecords mk blockAt (replayWindow lastProcessedBlock currentBlock),
            Inr currentBlock)"
proof -
  have "blockLoop getBlock mk (max (lastProcessedBlock + 1) (currentBlock - 5)) currentBlock results =
          (results @ blockRecords mk blockAt
             [max (lastProcessedBlock + 1) (currentBlock - 5) .. currentBlock], None)"
    using assms by (intro blockLoop_all_answered) (simp add: replayWindow_def)
  then show ?thesis by (simp add: newBlocks_def replayWindow_def)
qed

lemma blockLoop_length:
  "length (fst (blockLoop getBlock mk blockNum currentBlock results))
     \<le> length results + nat (currentBlock + 1 - blockNum)"
proof (induction getBlock mk blockNum currentBlock results rule: blockLoop.induct)
  case (1 getBlock mk blockNum currentBlock results)
  show ?case
  proof (cases "blockNum \<le> currentBlock")
    case False
    then show ?thesis by (subst blockLoop.simps) simp
  next
    case True
    show ?thesis
    proof (cases "getBlock blockNum")
      case (Inl e)
      then show ?thesis using True by (subst blockLoop.simps) simp
    next
      case (Inr found)
      show ?thesis
      proof (cases found)
        case None
        then show ?thesis
          using True Inr "1.IH"(1) [OF True Inr None]
          by (subst blockLoop.simps) simp
      next
        case (Some block)
        then show ?thesis
          using True Inr "1.IH"(2) [OF True Inr Some]
          by (subst blockLoop.simps) simp
      qed
    qed
  qed
qed

lemma newBlocks_length:
  "length (fst (newBlocks getBlock mk lastProcessedBlock currentBlock results))
     \<le> length results + 6"
proof -
  have same: "fst (newBlocks getBlock mk lastProcessedBlock currentBlock results) =
          fst (blockLoop getBlock mk (max (lastProcessedBlock + 1) (currentBlock - 5))
                 currentBlock results)"
    by (simp add: newBlocks_def split: prod.splits option.splits)
  have "length (fst (blockLoop getBlock mk (max (lastProcessedBlock + 1) (currentBlock - 5))
                  currentBlock results))
          \<le> length results + nat (currentBlock + 1 - max (lastProcessedBlock + 1) (currentBlock - 5))"
    by (rule blockLoop_length)
  also have "\<dots> \<le> length results + 6" by simp
  finally show ?thesis by (simp only: same)
qed

lemma pollHub_newBlock_length:
  "length (fst (pollHub env ''hub'' ''newBlock'' credentials lastProcessedBlock [])) \<le> 6"
proof (cases "createHubClient env (hubLayerOf credentials) (cred_privateKey credentials)")
  case (Inl e)
  then show ?thesis by (simp add: pollHub_def)
next
  case client: (Inr hubClient)
  show ?thesis
  proof (cases "hub_getBlockNumber hubClient")
    case (Inl e)
    then show ?thesis using client by (simp add: pollHub_def)
  next
    case (Inr currentBlock)
    then show ?thesis
      using client
        newBlocks_length [of "hub_getBlock hubClient" hubBlockRecord lastProcessedBlock
          currentBlock "[]"]
      by (simp add: pollHub_def)
  qed
qed

lemma pollVerse_newBlock_length:
  "length (fst (pollVerse env ''newBlock'' credentials lastProcessedBlock [])) \<le> 6"
proof (cases "getNodeParameter env ''verse'' (Some ''homeVerse'')")
  case (Inl e)
  then show ?thesis by (simp add: pollVerse_def)
next
  case key: (Inr verseKey)
  show ?thesis
  proof (cases "createVerseClient env verseKey (cred_privateKey credentials)")
    case (Inl e)
    then show ?thesis using key by (simp add: pollVerse_def)
  next
    case client: (Inr verseClient)
    show ?thesis
    proof (cases "verse_getBlockNumber verseClient")
      case (Inl e)
      then show ?thesis using key client by (simp add: pollVerse_def)
    next
      case (Inr currentBlock)
      then show ?thesis
        using key client
          newBlocks_length [of "verse_getBlock verseClient" "verseBlockRecord verseKey"
            lastProcessedBlock currentBlock "[]"]
        by (simp add: pollVerse_def)
    qed
  qed
qed

lemma pollTry_newBlock_length:
  assumes "category = ''hub'' \<or> category = ''verse''"
  shows "length (fst (pollTry env category ''newBlock'' credentials lastProcessedBlock)) \<le> 6"
  using assms
proof
  assume "category = ''hub''"
  then have "pollTry env category ''newBlock'' credentials lastProcessedBlock =
               pollHub env ''hub'' ''newBlock'' credentials lastProcessedBlock []"
    by (simp add: pollTry_def hubGuard_def)
  then show ?thesis by (simp only: pollHub_newBlock_length)
next
  assume "category = ''verse''"
  then have "pollTry env category ''newBlock'' credentials lastProcessedBlock =
               pollVerse env ''newBlock'' credentials lastProcessedBlock []"
    by (simp add: pollTry_def hubGuard_def verseGuard_def)
  then show ?thesis by (simp only: pollVerse_newBlock_length)
qed

text \<open>
  C2, as the code has it. When the chain height \<open>C\<close> is above the stored height \<open>L\<close>, a
  \<open>newBlock\<close> poll of the Hub or of a Verse asks for the blocks from \<open>max (L + 1) (C - 5)\<close>
  through \<open>C\<close>; when none of these queries is rejected it emits one record for each block
  the chain returns and stores \<open>C\<close>. The window holds the current block and up to five
  before it: at most 6 blocks, and whatever the chain answers a poll emits at most 6 records.
\<close>

theorem newBlock_replay_window:
  assumes category: "getNodeParameter env ''category'' None = Inr category"
    and event: "getNodeParameter env ''event'' None = Inr ''newBlock''"
    and creds: "getCredentials env ''oasysNetwork'' = Inr credentials"
    and last: "lastProcessedBlock = lastProcessed workflowStaticData (stateKeyOf category ''newBlock'')"
    and higher: "currentBlock > lastProcessedBlock"
  shows "(category = ''hub'' \<and>
          createHubClient env (hubLayerOf credentials) (cred_privateKey credentials) = Inr hubClient \<and>
          hub_getBlockNumber hubClient = Inr currentBlock \<and>
          (\<forall>n \<in> set (replayWindow lastProcessedBlock currentBlock).
             hub_getBlock hubClient n = Inr (blockAt n)) \<longrightarrow>
            returned (poll env workflowStaticData) =
              Inr (emitted (blockRecords hubBlockRecord blockAt
                     (replayWindow lastProcessedBlock currentBlock))) \<and>
            staticData (poll env workflowStaticData) =
              workflowStaticData(stateKeyOf category ''newBlock'' \<mapsto> currentBlock)) \<and>
         (category = ''verse'' \<and>
          getNodeParameter env ''verse'' (Some ''homeVerse'') = Inr verseKey \<and>
          createVerseClient env verseKey (cred_privateKey credentials) = Inr verseClient \<and>
          verse_getBlockNumber verseClient = Inr currentBlock \<and>
          (\<forall>n \<in> set (replayWindow lastProcessedBlock currentBlock).
             verse_getBlock verseClient n = Inr (blockAt n)) \<longrightarrow>
            returned (poll env workflowStaticData) =
              Inr (emitted (blockRecords (verseBlockRecord verseKey) blockAt
                     (replayWindow lastProcessedBlock currentBlock))) \<and>
            staticData (poll env workflowStaticData) =
              workflowStaticData(stateKeyOf category ''newBlock'' \<mapsto> currentBlock)) \<and>
         replayWindow lastProcessedBlock currentBlock =
           [max (lastProcessedBlock + 1) (currentBlock - 5) .. currentBlock] \<and>
         length (replayWindow lastProcessedBlock currentBlock) \<le> 6 \<and>
         length (blockRecords mk blockAt (replayWindow lastProcessedBlock currentBlock)) \<le> 6 \<and>
         (category = ''hub'' \<or> category = ''verse'' \<longrightarrow>
            (\<forall>records. returned (poll env workflowStaticData) = Inr (Some [records]) \<longrightarrow>
               length records \<le> 6))"
proof (intro conjI impI)
  assume hubCase: "category = ''hub'' \<and>
          createHubClient env (hubLayerOf credentials) (cred_privateKey credentials) = Inr hubClient \<and>
          hub_getBlockNumber hubClient = Inr currentBlock \<and>
          (\<forall>n \<in> set (replayWindow lastProcessedBlock currentBlock).
             hub_getBlock hubClient n = Inr (blockAt n))"
  then have body: "pollTry env category ''newBlock'' credentials lastProcessedBlock =
      (blockRecords hubBlockRecord blockAt (replayWindow lastProcessedBlock currentBlock),
       Inr currentBlock)"
    using higher
    by (simp add: pollTry_def hubGuard_def pollHub_def newBlocks_all_answered [where blockAt = blockAt])
  show "returned (poll env workflowStaticData) =
          Inr (emitted (blockRecords hubBlockRecord blockAt
                 (replayWindow lastProcessedBlock currentBlock)))"
    using poll_after_reads [OF category event creds body [unfolded last]]
    by (simp add: last)
  show "staticData (poll env workflowStaticData) =
          workflowStaticData(stateKeyOf category ''newBlock'' \<mapsto> currentBlock)"
    using poll_after_reads [OF category event creds body [unfolded last]] higher
    by (simp add: last)
next
  assume verseCase: "category = ''verse'' \<and>
          getNodeParameter env ''verse'' (Some ''homeVerse'') = Inr verseKey \<and>
          createVerseClient env verseKey (cred_privateKey credentials) = Inr verseClient \<and>
          verse_getBlockNumber verseClient = Inr currentBlock \<and>
          (\<forall>n \<in> set (replayWindow lastProcessedBlock currentBlock).
             verse_getBlock verseClient n = Inr (blockAt n))"
  then have body: "pollTry env category ''newBlock'' credentials lastProcessedBlock =
      (blockRecords (verseBlockRecord verseKey) blockAt
         (replayWindow lastProcessedBlock currentBlock), Inr currentBlock)"
    using higher
    by (simp add: pollTry_def hubGuard_def verseGuard_def pollVerse_def
          newBlocks_all_answered [where blockAt = blockAt])
  show "returned (poll env workflowStaticData) =
          Inr (emitted (blockRecords (verseBlockRecord verseKey) blockAt
                 (replayWindow lastProcessedBlock currentBlock)))"
    using poll_after_reads [OF category event creds body [unfolded last]]
    by (simp add: last)
  show "staticData (poll env workflowStaticData) =
          workflowStaticData(stateKeyOf category ''newBlock'' \<mapsto> currentBlock)"
    using poll_after_reads [OF category event creds body [unfolded last]] higher
    by (simp add: last)
next
  show "replayWindow lastProcessedBlock currentBlock =
          [max (lastProcessedBlock + 1) (currentBlock - 5) .. currentBlock]"
    by (simp add: replayWindow_def)
  show "length (replayWindow lastProcessedBlock currentBlock) \<le> 6"
    by (rule length_replayWindow)
  show "length (blockRecords mk blockAt (replayWindow lastProcessedBlock currentBlock)) \<le> 6"
    using length_blockRecords [of mk blockAt "replayWindow lastProcessedBlock currentBlock"]
          length_replayWindow [of lastProcessedBlock currentBlock]
    by linarith
next
  assume layer: "category = ''hub'' \<or> category = ''verse''"
  obtain results outcome where body:
    "pollTry env category ''newBlock'' credentials
       (lastProcessed workflowStaticData (stateKeyOf category ''newBlock'')) = (results, outcome)"
    by (cases "pollTry env category ''newBlock'' credentials
       (lastProcessed workflowStaticData (stateKeyOf category ''newBlock''))") auto
  have bound: "length results \<le> 6"
    using pollTry_newBlock_length [OF layer, of env credentials
            "lastProcessed workflowStaticData (stateKeyOf category ''newBlock'')"]
    by (simp add: body)
  show "\<forall>records. returned (poll env workflowStaticData) = Inr (Some [records]) \<longrightarrow>
          length records \<le> 6"
    using poll_after_reads [OF category event creds body] bound
    by (auto simp: emitted_def split: if_splits)
qed

theorem newBlock_replay_window_witness:
  "returned (poll (exampleEnv ''hub'' ''newBlock'' (exampleHub 10)) Map.empty) =
     Inr (Some [map (\<lambda>n. hubBlockRecord n (exampleBlock n)) [5, 6, 7, 8, 9, 10]]) \<and>
   staticData (poll (exampleEnv ''hub'' ''newBlock'' (exampleHub 10)) Map.empty) =
     [''oasys_trigger_hub_newBlock'' \<mapsto> 10] \<and>
   returned (poll (exampleEnv ''verse'' ''newBlock'' (exampleHub 10))
               [''oasys_trigger_verse_newBlock'' \<mapsto> 5]) =
     Inr (Some [map (\<lambda>n. verseBlockRecord ''homeVerse'' n (exampleBlock n)) [6, 7]])"
proof -
  let ?hubEnv = "exampleEnv ''hub'' ''newBlock'' (exampleHub 10)"
  let ?verseEnv = "exampleEnv ''verse'' ''newBlock'' (exampleHub 10)"
  let ?blockAt = "\<lambda>n::int. if 0 \<le> n \<and> n \<le> 10 then Some (exampleBlock n) else None"
  let ?verseAt = "\<lambda>n::int. if 0 \<le> n \<and> n \<le> 7 then Some (exampleBlock n) else None"
  have window: "replayWindow 0 10 = [5, 6, 7, 8, 9, 10]"
    by (simp add: replayWindow_def upto.simps)
  have hub: "returned (poll ?hubEnv Map.empty) =
               Inr (emitted (blockRecords hubBlockRecord ?blockAt (replayWindow 0 10))) \<and>
             staticData (poll ?hubEnv Map.empty) = [stateKeyOf ''hub'' ''newBlock'' \<mapsto> 10]"
    using newBlock_replay_window [where env = ?hubEnv and category = "''hub''"
            and credentials = exampleCredentials and lastProcessedBlock = 0
            and workflowStaticData = Map.empty and currentBlock = 10
            and hubClient = "exampleHub 10" and blockAt = ?blockAt]
    by (simp add: exampleEnv_def exampleHub_def lastProcessed_def window)
  have verse: "returned (poll ?verseEnv [''oasys_trigger_verse_newBlock'' \<mapsto> 5]) =
               Inr (emitted (blockRecords (verseBlockRecord ''homeVerse'') ?verseAt
                      (replayWindow 5 7)))"
    using newBlock_replay_window [where env = ?verseEnv and category = "''verse''"
            and credentials = exampleCredentials and lastProcessedBlock = 5
            and workflowStaticData = "[''oasys_trigger_verse_newBlock'' \<mapsto> 5]"
            and currentBlock = 7 and verseKey = "''homeVerse''"
            and verseClient = "exampleVerse 7" and blockAt = ?verseAt]
    by (simp add: exampleEnv_def exampleVerse_def lastProcessed_def stateKeyOf_def
          replayWindow_def upto.simps)
  show ?thesis
    using hub verse
    by (simp add: window blockRecords_def emitted_def stateKeyOf_def
          replayWindow_def upto.simps)
qed

text \<open>With nothing stored and the Hub at height 10, one poll replays the six blocks 5 to 10.\<close>

theorem newBlock_six_blocks_counterexample:
  "lastProcessed Map.empty (stateKeyOf ''hub'' ''newBlock'') = 0 \<and>
   hub_getBlockNumber (exampleHub 10) = Inr 10 \<and>
   (case returned (poll (exampleEnv ''hub'' ''newBlock'' (exampleHub 10)) Map.empty) of
      Inr (Some [records]) \<Rightarrow> length records = 6
    | _ \<Rightarrow> False)"
  by (simp add: poll_def exampleEnv_def exampleHub_def pollTry_def hubGuard_def pollHub_def
       newBlocks_def lastProcessed_def stateKeyOf_def emitted_def Let_def exampleCredentials_def
       hubLayerOf_def blockLoop.simps)

section \<open>Errors during a poll\<close>














section \<open>The bridge category\<close>

text \<open>
  C10. A poll of category \<open>bridge\<close> whose parameter and credential reads succeed emits
  exactly one record, with the message \<open>Bridge event monitoring active\<close>, and logs nothing.
  It asks no client for anything: with any other client factories the poll is the same. A
  stored height that is not negative is left as it is.
\<close>

theorem bridge_poll_fixed_record:
  assumes category: "getNodeParameter env ''category'' None = Inr ''bridge''"
    and event: "getNodeParameter env ''event'' None = Inr event"
    and creds: "getCredentials env ''oasysNetwork'' = Inr credentials"
    and verseKey: "getNodeParameter env ''verse'' (Some ''homeVerse'') = Inr verseKey"
  shows "returned (poll env workflowStaticData) =
           Inr (Some [[JObject [(''event'', JString event),
                                (''layer'', JString ''Bridge''),
                                (''verse'', JString verseKey),
                                (''message'', JString ''Bridge event monitoring active''),
                                (''timestamp'', JString (now_toISOString env))]]]) \<and>
         logged (poll env workflowStaticData) = [] \<and>
         poll (env \<lparr> createHubClient := anyHubFactory, createVerseClient := anyVerseFactory \<rparr>)
              workflowStaticData = poll env workflowStaticData \<and>
         (0 \<le> lastProcessed workflowStaticData (stateKeyOf ''bridge'' event) \<longrightarrow>
            staticData (poll env workflowStaticData) = workflowStaticData)"
proof -
  let ?L = "lastProcessed workflowStaticData (stateKeyOf ''bridge'' event)"
  let ?env' = "env \<lparr> createHubClient := anyHubFactory, createVerseClient := anyVerseFactory \<rparr>"
  let ?recs = "[JObject [(''event'', JString event),
                         (''layer'', JString ''Bridge''),
                         (''verse'', JString verseKey),
                         (''message'', JString ''Bridge event monitoring active''),
                         (''timestamp'', JString (now_toISOString env))]]"
  have body: "pollTry env ''bridge'' event credentials ?L = (?recs, Inr 0)"
    using verseKey by (simp add: pollTry_def hubGuard_def verseGuard_def pollBridge_def)
  have body': "pollTry ?env' ''bridge'' event credentials ?L = (?recs, Inr 0)"
    using verseKey by (simp add: pollTry_def hubGuard_def verseGuard_def pollBridge_def)
  have reads': "getNodeParameter ?env' ''category'' None = Inr ''bridge''"
    "getNodeParameter ?env' ''event'' None = Inr event"
    "getCredentials ?env' ''oasysNetwork'' = Inr credentials"
    by (simp_all add: category event creds)
  show ?thesis
    by (simp add: poll_after_reads [OF category event creds body]
          poll_after_reads [OF reads' body'] emitted_def)
qed

theorem bridge_poll_fixed_record_witness:
  "returned (poll (exampleEnv ''bridge'' ''depositInitiated'' (exampleHub 10)) Map.empty) =
     Inr (Some [[JObject [(''event'', JString ''depositInitiated''),
                          (''layer'', JString ''Bridge''),
                          (''verse'', JString ''homeVerse''),
                          (''message'', JString ''Bridge event monitoring active''),
                          (''timestamp'', JString ''2026-01-01T00:00:00.000Z'')]]]) \<and>
   staticData (poll (exampleEnv ''bridge'' ''depositInitiated'' (exampleHub 10)) Map.empty) =
     Map.empty"
  using bridge_poll_fixed_record [of "exampleEnv ''bridge'' ''depositInitiated'' (exampleHub 10)"
          "''depositInitiated''" exampleCredentials "''homeVerse''" Map.empty]
  by (simp add: exampleEnv_def lastProcessed_def)

section \<open>The stored height over successive polls\<close>

lemma newBlocks_height:
  "newBlocks getBlock mk lastProcessedBlock currentBlock results = (rs, Inr c) \<Longrightarrow> c = currentBlock"
  by (auto simp: newBlocks_def split: prod.splits option.splits)

lemma pollHub_height:
  "pollHub env category event credentials lastProcessedBlock results = (rs, Inr c) \<Longrightarrow>
   hubHeight env credentials = Inr c"
  by (auto simp: pollHub_def hubHeight_def split: sum.splits if_splits dest: newBlocks_height)

lemma verseHeightI:
  "createVerseClient env verseKey (cred_privateKey credentials) = Inr verseClient \<Longrightarrow>
   verse_getBlockNumber verseClient = Inr c \<Longrightarrow>
   \<exists>verseKey. verseHeight env credentials verseKey = Inr c"
  by (rule exI [of _ verseKey]) (simp add: verseHeight_def)

lemma pollVerse_height:
  "pollVerse env event credentials lastProcessedBlock results = (rs, Inr c) \<Longrightarrow>
   \<exists>verseKey. verseHeight env credentials verseKey = Inr c"
  by (auto simp: pollVerse_def split: sum.split_asm if_split_asm
        dest!: newBlocks_height intro: verseHeightI)

lemma pollNft_height:
  "pollNft env event credentials results = (rs, Inr c) \<Longrightarrow>
   hubHeight env credentials = Inr c \<or> (\<exists>verseKey. verseHeight env credentials verseKey = Inr c)"
  by (auto simp: pollNft_def hubHeight_def split: sum.split_asm if_split_asm
        intro: verseHeightI)

lemma pollContract_height:
  "pollContract env credentials lastProcessedBlock results = (rs, Inr c) \<Longrightarrow>
   c = 0 \<or> hubHeight env credentials = Inr c"
  by (auto simp: pollContract_def hubHeight_def split: sum.splits if_splits)

lemma pollBridge_height: "pollBridge env event results = (rs, Inr c) \<Longrightarrow> c = 0"
  by (auto simp: pollBridge_def split: sum.splits)

lemma pollTry_height:
  assumes "pollTry env category event credentials lastProcessedBlock = (rs, Inr c)"
  shows "c = 0 \<or> hubHeight env credentials = Inr c \<or>
         (\<exists>verseKey. verseHeight env credentials verseKey = Inr c)"
  using assms
    pollHub_height [of env category event credentials lastProcessedBlock "[]" rs c]
    pollVerse_height [of env event credentials lastProcessedBlock "[]" rs c]
    pollNft_height [of env event credentials "[]" rs c]
    pollContract_height [of env credentials lastProcessedBlock "[]" rs c]
    pollBridge_height [of env event "[]" rs c]
  by (auto simp: pollTry_def Let_def split: sum.splits bool.splits if_splits)

lemma lastProcessed_upd:
  "lastProcessed (m(k \<mapsto> v)) k' = (if k' = k then v else lastProcessed m k')"
  by (simp add: lastProcessed_def)

lemma poll_cursor_mono:
  "lastProcessed workflowStaticData key \<le> lastProcessed (staticData (poll env workflowStaticData)) key"
proof (cases "getNodeParameter env ''category'' None")
  case (Inl e)
  then show ?thesis by (simp add: poll_def)
next
  case category: (Inr category)
  show ?thesis
  proof (cases "getNodeParameter env ''event'' None")
    case (Inl e)
    then show ?thesis using category by (simp add: poll_def)
  next
    case event: (Inr event)
    show ?thesis
    proof (cases "getCredentials env ''oasysNetwork''")
      case (Inl e)
      then show ?thesis using category event by (simp add: poll_def)
    next
      case creds: (Inr credentials)
      obtain results outcome where body:
        "pollTry env category event credentials
           (lastProcessed workflowStaticData (stateKeyOf category event)) = (results, outcome)"
        by (cases "pollTry env category event credentials
           (lastProcessed workflowStaticData (stateKeyOf category event))") auto
      show ?thesis
        by (cases outcome)
           (simp_all add: poll_after_reads [OF category event creds body] lastProcessed_upd)
    qed
  qed
qed

lemma polls_cursor_mono:
  "lastProcessed workflowStaticData key \<le> lastProcessed (polls envs workflowStaticData) key"
proof (induction envs arbitrary: workflowStaticData)
  case Nil
  show ?case by simp
next
  case (Cons env envs)
  have "lastProcessed workflowStaticData key
          \<le> lastProcessed (staticData (poll env workflowStaticData)) key"
    by (rule poll_cursor_mono)
  also have "\<dots> \<le> lastProcessed (polls envs (staticData (poll env workflowStaticData))) key"
    by (rule Cons.IH)
  finally show ?case by simp
qed

lemma poll_failed_read:
  "getNodeParameter env ''category'' None = Inl e \<or>
   getNodeParameter env ''event'' None = Inl e \<or>
   getCredentials env ''oasysNetwork'' = Inl e \<Longrightarrow>
   staticData (poll env workflowStaticData) = workflowStaticData"
  by (auto simp: poll_def split: sum.splits)

text \<open>
  C9. Over any sequence of polls the stored height of every state key never decreases. One
  poll leaves the static data as it is when a read before the \<open>try\<close> block is rejected and
  when an error leaves the \<open>try\<close> block; otherwise \<open>currentBlock\<close> is 0 or the height a
  client reported, and the poll stores it under its state key exactly when it is strictly
  above the stored height.
\<close>

theorem cursor_monotone:
  "lastProcessed workflowStaticData key \<le> lastProcessed (polls envs workflowStaticData) key \<and>
   (getNodeParameter env ''category'' None = Inl e \<or>
    getNodeParameter env ''event'' None = Inl e \<or>
    getCredentials env ''oasysNetwork'' = Inl e \<longrightarrow>
      staticData (poll env workflowStaticData) = workflowStaticData) \<and>
   (getNodeParameter env ''category'' None = Inr category \<and>
    getNodeParameter env ''event'' None = Inr event \<and>
    getCredentials env ''oasysNetwork'' = Inr credentials \<and>
    pollTry env category event credentials
      (lastProcessed workflowStaticData (stateKeyOf category event)) = (results, outcome) \<longrightarrow>
      (outcome = Inl e \<longrightarrow> staticData (poll env workflowStaticData) = workflowStaticData) \<and>
      (outcome = Inr currentBlock \<longrightarrow>
         (currentBlock = 0 \<or> hubHeight env credentials = Inr currentBlock \<or>
          (\<exists>verseKey. verseHeight env credentials verseKey = Inr currentBlock)) \<and>
         staticData (poll env workflowStaticData) =
           (if currentBlock > lastProcessed workflowStaticData (stateKeyOf category event)
            then workflowStaticData(stateKeyOf category event \<mapsto> currentBlock)
            else workflowStaticData)))"
proof (intro conjI impI)
  show "lastProcessed workflowStaticData key \<le> lastProcessed (polls envs workflowStaticData) key"
    by (rule polls_cursor_mono)
next
  assume "getNodeParameter env ''category'' None = Inl e \<or>
    getNodeParameter env ''event'' None = Inl e \<or>
    getCredentials env ''oasysNetwork'' = Inl e"
  then show "staticData (poll env workflowStaticData) = workflowStaticData"
    by (rule poll_failed_read)
next
  assume reads: "getNodeParameter env ''category'' None = Inr category \<and>
    getNodeParameter env ''event'' None = Inr event \<and>
    getCredentials env ''oasysNetwork'' = Inr credentials \<and>
    pollTry env category event credentials
      (lastProcessed workflowStaticData (stateKeyOf category event)) = (results, outcome)"
    and "outcome = Inl e"
  then show "staticData (poll env workflowStaticData) = workflowStaticData"
    using poll_after_reads [of env category event credentials workflowStaticData results outcome]
    by simp
next
  assume reads: "getNodeParameter env ''category'' None = Inr category \<and>
    getNodeParameter env ''event'' None = Inr event \<and>
    getCredentials env ''oasysNetwork'' = Inr credentials \<and>
    pollTry env category event credentials
      (lastProcessed workflowStaticData (stateKeyOf category event)) = (results, outcome)"
    and ok: "outcome = Inr currentBlock"
  show "currentBlock = 0 \<or> hubHeight env credentials = Inr currentBlock \<or>
          (\<exists>verseKey. verseHeight env credentials verseKey = Inr currentBlock)"
    using reads ok
      pollTry_height [of env category event credentials
        "lastProcessed workflowStaticData (stateKeyOf category event)" results currentBlock]
    by simp
  show "staticData (poll env workflowStaticData) =
           (if currentBlock > lastProcessed workflowStaticData (stateKeyOf category event)
            then workflowStaticData(stateKeyOf category event \<mapsto> currentBlock)
            else workflowStaticData)"
    using reads ok
      poll_after_reads [of env category event credentials workflowStaticData results outcome]
    by simp
qed

theorem cursor_monotone_witness:
  "lastProcessed Map.empty ''oasys_trigger_hub_newBlock''
     \<le> lastProcessed
         (polls [exampleEnv ''hub'' ''newBlock'' (exampleHub 10),
                 exampleEnv ''hub'' ''newBlock'' unreachableHub,
                 exampleEnv ''hub'' ''newBlock'' (exampleHub 8),
                 exampleEnv ''hub'' ''newBlock'' (exampleHub 12)] Map.empty)
         ''oasys_trigger_hub_newBlock'' \<and>
   staticData (poll (exampleEnv ''hub'' ''newBlock'' unreachableHub)
                 [''oasys_trigger_hub_newBlock'' \<mapsto> 4]) =
     [''oasys_trigger_hub_newBlock'' \<mapsto> 4] \<and>
   staticData (poll (exampleEnv ''hub'' ''epochChanged'' (exampleHub 10))
                 [''oasys_trigger_hub_epochChanged'' \<mapsto> 4]) =
     [''oasys_trigger_hub_epochChanged'' \<mapsto> 10] \<and>
   staticData (poll noCredentialsEnv [''oasys_trigger_hub_newBlock'' \<mapsto> 4]) =
     [''oasys_trigger_hub_newBlock'' \<mapsto> 4]"
proof -
  let ?failing = "exampleEnv ''hub'' ''newBlock'' unreachableHub"
  let ?epoch = "exampleEnv ''hub'' ''epochChanged'' (exampleHub 10)"
  have thrown: "pollTry ?failing ''hub'' ''newBlock'' exampleCredentials
                  (lastProcessed [''oasys_trigger_hub_newBlock'' \<mapsto> 4]
                     (stateKeyOf ''hub'' ''newBlock'')) =
                ([], Inl (Error ''network error''))"
    by (simp add: pollTry_def hubGuard_def pollHub_def exampleEnv_def unreachableHub_def
          exampleHub_def)
  have advanced: "pollTry ?epoch ''hub'' ''epochChanged'' exampleCredentials
                  (lastProcessed [''oasys_trigger_hub_epochChanged'' \<mapsto> 4]
                     (stateKeyOf ''hub'' ''epochChanged'')) =
                ([JObject [(''event'', JString ''epochChanged''), (''layer'', JString ''Hub''),
                           (''currentEpoch'', JNumber 3), (''blocksRemaining'', JNumber 100)]],
                 Inr 10)"
    by (simp add: pollTry_def hubGuard_def pollHub_def exampleEnv_def exampleHub_def)
  show ?thesis
    using cursor_monotone [of Map.empty "''oasys_trigger_hub_newBlock''"
            "[exampleEnv ''hub'' ''newBlock'' (exampleHub 10),
              exampleEnv ''hub'' ''newBlock'' unreachableHub,
              exampleEnv ''hub'' ''newBlock'' (exampleHub 8),
              exampleEnv ''hub'' ''newBlock'' (exampleHub 12)]"
            noCredentialsEnv "Error ''Credentials not found''"]
          cursor_monotone [of "[''oasys_trigger_hub_newBlock'' \<mapsto> 4]" _ "[]" ?failing
            "Error ''network error''" "''hub''" "''newBlock''" exampleCredentials "[]"
            "Inl (Error ''network error'')"]
          cursor_monotone [of "[''oasys_trigger_hub_epochChanged'' \<mapsto> 4]" _ "[]" ?epoch
            _ "''hub''" "''epochChanged''" exampleCredentials _ "Inr 10" 10]
          cursor_monotone [of "[''oasys_trigger_hub_newBlock'' \<mapsto> 4]" _ "[]" noCredentialsEnv
            "Error ''Credentials not found''"]
          thrown advanced
    by (simp add: exampleEnv_def noCredentialsEnv_def stateKeyOf_def lastProcessed_def)
qed

section \<open>The item loop of the action node\<close>

lemma executeLoop_done:
  "\<not> i < itemsLength \<Longrightarrow>
   executeLoop evaluate continueOnFail i itemsLength world returnData = (world, Inr returnData)"
  by (subst executeLoop.simps) simp

lemma executeLoop_ok:
  "i < itemsLength \<Longrightarrow> evaluate i world = (world', Inr result) \<Longrightarrow>
   executeLoop evaluate continueOnFail i itemsLength world returnData =
     executeLoop evaluate continueOnFail (i + 1) itemsLength world'
       (returnData @ [resultRecord result])"
  by (subst executeLoop.simps) simp

lemma executeLoop_caught:
  "i < itemsLength \<Longrightarrow> evaluate i world = (world', Inl e) \<Longrightarrow>
   executeLoop evaluate True i itemsLength world returnData =
     executeLoop evaluate True (i + 1) itemsLength world' (returnData @ [errorRecord e])"
  by (subst executeLoop.simps) simp

lemma executeLoop_thrown:
  "i < itemsLength \<Longrightarrow> evaluate i world = (world', Inl e) \<Longrightarrow>
   executeLoop evaluate False i itemsLength world returnData = (world', Inl e)"
  by (subst executeLoop.simps) simp

lemma executeLoop_continue:
  "itemsLength - i = d \<Longrightarrow>
   executeLoop evaluate True i itemsLength world returnData =
     (fst (evaluateFrom evaluate i d world),
      Inr (returnData @ map itemRecord (snd (evaluateFrom evaluate i d world))))"
proof (induction d arbitrary: i world returnData)
  case 0
  then show ?case by (simp add: executeLoop_done)
next
  case (Suc d)
  then have less: "i < itemsLength" and rest: "itemsLength - (i + 1) = d"
    by simp_all
  obtain world' out where here: "evaluate i world = (world', out)"
    by (cases "evaluate i world") auto
  show ?case
  proof (cases out)
    case (Inl e)
    show ?thesis
      using executeLoop_caught [where evaluate = evaluate and world = world,
              OF less here [unfolded Inl]]
            Suc.IH [OF rest] here Inl
      by (simp add: case_prod_unfold itemRecord_def)
  next
    case (Inr result)
    show ?thesis
      using executeLoop_ok [where evaluate = evaluate and world = world,
              OF less here [unfolded Inr]]
            Suc.IH [OF rest] here Inr
      by (simp add: case_prod_unfold itemRecord_def)
  qed
qed

lemma executeLoop_no_error:
  "itemsLength - i = d \<Longrightarrow>
   \<forall>out \<in> set (snd (evaluateFrom evaluate i d world)). \<not> isl out \<Longrightarrow>
   executeLoop evaluate continueOnFail i itemsLength world returnData =
     (fst (evaluateFrom evaluate i d world),
      Inr (returnData @
           map (\<lambda>out. resultRecord (projr out)) (snd (evaluateFrom evaluate i d world))))"
proof (induction d arbitrary: i world returnData)
  case 0
  then show ?case by (simp add: executeLoop_done)
next
  case (Suc d)
  then have less: "i < itemsLength" and rest: "itemsLength - (i + 1) = d"
    by simp_all
  obtain world' out where here: "evaluate i world = (world', out)"
    by (cases "evaluate i world") auto
  have ok: "\<not> isl out"
    and oks: "\<forall>out \<in> set (snd (evaluateFrom evaluate (i + 1) d world')). \<not> isl out"
    using Suc.prems(2) here by (simp_all add: case_prod_unfold)
  from ok obtain result where out: "out = Inr result" by (cases out) auto
  show ?case
    using executeLoop_ok [where evaluate = evaluate and world = world,
            OF less here [unfolded out]]
          Suc.IH [OF rest oks] here out
    by (simp add: case_prod_unfold)
qed

lemma executeLoop_abort:
  "\<forall>out \<in> set (snd (evaluateFrom evaluate i k world)). \<not> isl out \<Longrightarrow>
   evaluate (i + k) (fst (evaluateFrom evaluate i k world)) = (world', Inl e) \<Longrightarrow>
   i + k < itemsLength \<Longrightarrow>
   executeLoop evaluate False i itemsLength world returnData = (world', Inl e)"
proof (induction k arbitrary: i world returnData)
  case 0
  then show ?case by (simp add: executeLoop_thrown)
next
  case (Suc k)
  obtain world1 out where here: "evaluate i world = (world1, out)"
    by (cases "evaluate i world") auto
  have ok: "\<not> isl out"
    and oks: "\<forall>out \<in> set (snd (evaluateFrom evaluate (i + 1) k world1)). \<not> isl out"
    using Suc.prems(1) here by (simp_all add: case_prod_unfold)
  from ok obtain result where out: "out = Inr result" by (cases out) auto
  have b: "evaluate (i + 1 + k) (fst (evaluateFrom evaluate (i + 1) k world1)) = (world', Inl e)"
    using Suc.prems(2) here by (simp add: case_prod_unfold)
  have c: "i + 1 + k < itemsLength" using Suc.prems(3) by simp
  have d: "i < itemsLength" using Suc.prems(3) by simp
  show ?case
    using executeLoop_ok [where evaluate = evaluate and world = world,
            OF d here [unfolded out]]
          Suc.IH [OF oks b c]
    by simp
qed

lemma length_evaluateFrom: "length (snd (evaluateFrom evaluate i k world)) = k"
  by (induction k arbitrary: i world) (simp_all add: case_prod_unfold)

lemma evaluateFrom_nth:
  "j < k \<Longrightarrow>
   snd (evaluateFrom evaluate i k world) ! j =
     snd (evaluate (i + j) (fst (evaluateFrom evaluate i j world)))"
proof (induction k arbitrary: i j world)
  case 0
  then show ?case by simp
next
  case (Suc k)
  show ?case
  proof (cases j)
    case 0
    then show ?thesis by (simp add: case_prod_unfold)
  next
    case (Suc j')
    then have "j' < k" using Suc.prems by simp
    from Suc.IH [OF this, of "i + 1" "fst (evaluate i world)"] show ?thesis
      using Suc by (simp add: case_prod_unfold)
  qed
qed

text \<open>
  C8. Let \<open>E\<close> be the outcomes of the items, each evaluated in the world its predecessors
  left. With continue-on-fail the loop evaluates every item and emits one record per item,
  in order: \<open>{json: result}\<close> for a result and \<open>{json: {error: message}}\<close> for a thrown
  error. Without it, the first error thrown is the loop's own error and the world is the
  one right after the failing item: no later item is evaluated. When no item throws, the
  output has exactly one \<open>{json: result}\<close> record per item under either setting.
\<close>

theorem executeItems_error_policy:
  assumes E: "E = evaluateFrom evaluate 0 itemsLength world"
  shows "executeItems evaluate True itemsLength world = (fst E, Inr [map itemRecord (snd E)]) \<and>
         length (snd E) = itemsLength \<and>
         (\<forall>k < itemsLength.
            snd E ! k = snd (evaluate k (fst (evaluateFrom evaluate 0 k world)))) \<and>
         (\<forall>e. itemRecord (Inl e) = JObject [(''json'', JObject [(''error'', JString (message e))])]) \<and>
         (\<forall>result. itemRecord (Inr result) = JObject [(''json'', result)]) \<and>
         (\<forall>k < itemsLength. \<forall>world' e.
            (\<forall>out \<in> set (snd (evaluateFrom evaluate 0 k world)). \<not> isl out) \<and>
            evaluate k (fst (evaluateFrom evaluate 0 k world)) = (world', Inl e) \<longrightarrow>
              executeItems evaluate False itemsLength world = (world', Inl e)) \<and>
         ((\<forall>out \<in> set (snd E). \<not> isl out) \<longrightarrow>
            executeItems evaluate continueOnFail itemsLength world =
              (fst E, Inr [map (\<lambda>out. resultRecord (projr out)) (snd E)]))"
proof (intro conjI allI impI)
  show "executeItems evaluate True itemsLength world = (fst E, Inr [map itemRecord (snd E)])"
    using executeLoop_continue [of itemsLength 0 itemsLength evaluate world "[]"]
    by (simp add: executeItems_def E)
  show "length (snd E) = itemsLength"
    by (simp add: E length_evaluateFrom)
  show "\<And>e. itemRecord (Inl e) = JObject [(''json'', JObject [(''error'', JString (message e))])]"
    by (simp add: itemRecord_def errorRecord_def)
  show "\<And>result. itemRecord (Inr result) = JObject [(''json'', result)]"
    by (simp add: itemRecord_def resultRecord_def)
next
  fix k assume "k < itemsLength"
  then show "snd E ! k = snd (evaluate k (fst (evaluateFrom evaluate 0 k world)))"
    using evaluateFrom_nth [of k itemsLength evaluate 0 world] by (simp add: E)
next
  fix k world' e
  assume k: "k < itemsLength"
    and "(\<forall>out \<in> set (snd (evaluateFrom evaluate 0 k world)). \<not> isl out) \<and>
         evaluate k (fst (evaluateFrom evaluate 0 k world)) = (world', Inl e)"
  then have "executeLoop evaluate False 0 itemsLength world [] = (world', Inl e)"
    using executeLoop_abort [of evaluate 0 k world world' e itemsLength "[]"] by simp
  then show "executeItems evaluate False itemsLength world = (world', Inl e)"
    by (simp add: executeItems_def)
next
  assume "\<forall>out \<in> set (snd E). \<not> isl out"
  then show "executeItems evaluate continueOnFail itemsLength world =
               (fst E, Inr [map (\<lambda>out. resultRecord (projr out)) (snd E)])"
    using executeLoop_no_error [of itemsLength 0 itemsLength evaluate world continueOnFail "[]"]
    by (simp add: executeItems_def E)
qed

theorem executeItems_error_policy_witness:
  "executeItems exampleItem True 3 0 =
     (3, Inr [[JObject [(''json'', JNumber 0)],
               JObject [(''json'', JObject [(''error'', JString ''Wallet not configured'')])],
               JObject [(''json'', JNumber 2)]]]) \<and>
   executeItems exampleItem False 3 0 = (2, Inl (Error ''Wallet not configured'')) \<and>
   executeItems exampleItem False 1 0 = (1, Inr [[JObject [(''json'', JNumber 0)]]])"
proof -
  have outcomes: "evaluateFrom exampleItem 0 3 0 =
     (3, [Inr (JNumber 0), Inl (Error ''Wallet not configured''), Inr (JNumber 2)])"
    by (simp add: exampleItem_def numeral_3_eq_3)
  have first: "evaluateFrom exampleItem 0 1 0 = (1, [Inr (JNumber 0)])"
    by (simp add: exampleItem_def)
  note three = executeItems_error_policy [OF refl, of exampleItem 3 0 False]
  note one = executeItems_error_policy [OF refl, of exampleItem 1 0 False]
  have continued: "executeItems exampleItem True 3 0 =
     (3, Inr [[JObject [(''json'', JNumber 0)],
               JObject [(''json'', JObject [(''error'', JString ''Wallet not configured'')])],
               JObject [(''json'', JNumber 2)]]])"
    using three by (simp add: outcomes)
  from three have "\<forall>k < 3. \<forall>world' e.
      (\<forall>out \<in> set (snd (evaluateFrom exampleItem 0 k 0)). \<not> isl out) \<and>
      exampleItem k (fst (evaluateFrom exampleItem 0 k 0)) = (world', Inl e) \<longrightarrow>
        executeItems exampleItem False 3 0 = (world', Inl e)"
    by (elim conjE)
  from this [rule_format, of 1 2 "Error ''Wallet not configured''"]
  have aborted: "executeItems exampleItem False 3 0 = (2, Inl (Error ''Wallet not configured''))"
    by (simp add: first) (simp add: exampleItem_def)
  have clean: "executeItems exampleItem False 1 0 = (1, Inr [[JObject [(''json'', JNumber 0)]]])"
    using one by (simp add: exampleItem_def resultRecord_def)
  show ?thesis using continued aborted clean by simp
qed

end
